theory Spec2Isabelle
  imports Main
begin

section \<open>Client library: error mapping (packages/client/src/lib/errors.ts)\<close>

text \<open>
  The values that can reach \<open>mapWebAuthnError(error: unknown)\<close> and
  \<open>isPasskeyError(error: unknown)\<close>. An object literal is the list of its own
  properties. An instance of \<open>Error\<close> is given by the two values that reading its
  \<open>name\<close> and its \<open>message\<close> yields; lib.d.ts types both as strings, but at run
  time they can be any value. No value of the model is a function, so calling a method
  on anything but a string throws a \<open>TypeError\<close>. Strings are character lists and
  \<open>toLowerCase\<close> acts on the ASCII letters, which is all that the two search words
  \<open>timeout\<close> and \<open>fetch\<close> can meet.
\<close>

datatype 'a outcome = Threw string | Returned 'a





















section \<open>Database schema and SQL functions (getMigrationSQL)\<close>

text \<open>
  Timestamps are milliseconds since the epoch. A table is the list of its rows, in
  insertion order; the columns that the edge function never reads or writes
  (\<open>passkey_challenges.user_id\<close>, \<open>created_at\<close> of the challenges and rate limits,
  \<open>aaguid\<close>, \<open>user_agent\<close>, \<open>metadata\<close>, \<open>error_code\<close>) are left out. The
  rate-limit table is keyed by its unique constraint
  \<open>(identifier, identifier_type, endpoint, window_start)\<close>.
\<close>

type_synonym timestamp = nat

datatype challenge_type = Registration | Authentication

record passkey_challenge =
  ch_id :: string
  ch_challenge :: string
  ch_email :: "string option"
  ch_webauthn_user_id :: "string option"
  ch_type :: challenge_type
  ch_expires_at :: timestamp

datatype device_type = singleDevice | multiDevice

record passkey_credential =
  cr_id :: string
  cr_user_id :: string
  cr_webauthn_user_id :: string
  cr_public_key :: "nat list"
  cr_counter :: int
  cr_device_type :: device_type
  cr_backed_up :: bool
  cr_transports :: "string list option"
  cr_authenticator_name :: "string option"
  cr_created_at :: timestamp
  cr_last_used_at :: "timestamp option"

record auth_user =
  u_id :: string
  u_email :: "string option"

datatype passkey_audit_event =
    registration_started
  | registration_completed
  | registration_failed
  | authentication_started
  | authentication_completed
  | authentication_failed
  | passkey_removed
  | passkey_updated
  | rate_limit_exceeded
  | challenge_expired
  | counter_mismatch

record audit_row =
  event_type :: passkey_audit_event
  p_user_id :: "string option"
  p_credential_id :: "string option"
  p_email :: "string option"
  p_ip_address :: "string option"
  p_origin :: "string option"
  p_error_message :: "string option"
  created_at :: timestamp

type_synonym rate_limit_key = "string \<times> string \<times> string \<times> timestamp"

record database =
  passkey_challenges :: "passkey_challenge list"
  passkey_credentials :: "passkey_credential list"
  passkey_rate_limits :: "rate_limit_key \<rightharpoonup> int"
  passkey_audit_log :: "audit_row list"
  auth_users :: "auth_user list"

datatype sql_error = check_violation | string_data_right_truncation | numeric_value_out_of_range

text \<open>\<open>date_trunc('minute', NOW())\<close>.\<close>

definition date_trunc_minute :: "timestamp \<Rightarrow> timestamp" where
  "date_trunc_minute t = t - t mod 60000"

text \<open>The largest value of the SQL type \<open>INTEGER\<close>, the type of \<open>attempt_count\<close>.\<close>

definition INTEGER_MAX :: int where
  "INTEGER_MAX = 2147483647"

text \<open>
  \<open>check_passkey_rate_limit\<close>: one \<open>INSERT ... ON CONFLICT DO UPDATE ... RETURNING\<close>
  statement, then the comparison of the returned count with \<open>p_max_attempts\<close>. The
  statement raises, and leaves the table as it was, when the row breaks a constraint of
  the table or the incremented count leaves the range of \<open>INTEGER\<close>.
\<close>

definition check_passkey_rate_limit ::
  "string \<Rightarrow> string \<Rightarrow> string \<Rightarrow> int \<Rightarrow> timestamp \<Rightarrow> (rate_limit_key \<rightharpoonup> int)
     \<Rightarrow> sql_error + ((rate_limit_key \<rightharpoonup> int) \<times> bool)" where
  "check_passkey_rate_limit p_identifier p_identifier_type p_endpoint p_max_attempts NOW tbl =
     (let v_window_start = date_trunc_minute NOW;
          key = (p_identifier, p_identifier_type, p_endpoint, v_window_start);
          v_current_count = (case tbl key of None \<Rightarrow> 1 | Some attempt_count \<Rightarrow> attempt_count + 1)
      in if p_identifier_type \<noteq> ''ip'' \<and> p_identifier_type \<noteq> ''email'' then Inl check_violation
         else if length p_endpoint > 50 then Inl string_data_right_truncation
         else if v_current_count > INTEGER_MAX then Inl numeric_value_out_of_range
         else Inr (tbl(key \<mapsto> v_current_count), v_current_count > p_max_attempts))"

text \<open>
  \<open>log_passkey_audit_event\<close> appends one row. The client address is taken to be a
  well-formed \<open>INET\<close> literal, so that the insert goes through.
\<close>

definition log_passkey_audit_event :: "audit_row \<Rightarrow> database \<Rightarrow> database" where
  "log_passkey_audit_event row db = db\<lparr>passkey_audit_log := passkey_audit_log db @ [row]\<rparr>"

section \<open>The edge function (getEdgeFunctionCode)\<close>

text \<open>
  What one request meets outside the function's own code: the clock, the request
  headers, the session that the identity provider reads from the bearer token, the
  random values drawn during the request, and the external services (the WebAuthn
  verifier and the identity provider's admin calls). A call that can throw returns an
  \<open>outcome\<close>. \<open>createUser\<close> gives the id of the new account, or nothing when the
  provider refuses; \<open>generateLink\<close> gives \<open>properties.hashed_token\<close>, or nothing when
  the provider returns no properties. A stored public key is the byte string itself; its
  hexadecimal transport encoding is not modelled. One request reads the clock once.
  Of the endpoints, \<open>/passkeys/list\<close> is not modelled.
\<close>

record authenticator_response =
  resp_id :: string
  resp_signCount :: int
  resp_data :: string

record registrationInfo =
  credential_id :: string
  credential_publicKey :: "nat list"
  credential_counter :: int
  credential_transports :: "string list option"
  credentialDeviceType :: device_type
  credentialBackedUp :: bool

record environment =
  now :: timestamp
  origin :: string
  clientIP :: string
  session_user :: "string option"
  gen_random_uuid :: string
  generateWebAuthnUserId :: string
  options_challenge :: string
  verifyRegistrationResponse ::
    "authenticator_response option \<Rightarrow> string \<Rightarrow> string \<Rightarrow> string
       \<Rightarrow> (bool \<times> registrationInfo option) outcome"
  verifyAuthenticationResponse ::
    "authenticator_response \<Rightarrow> string \<Rightarrow> string \<Rightarrow> string \<Rightarrow> string \<times> nat list \<times> int
       \<Rightarrow> (bool \<times> int) outcome"
  createUser :: "string option \<Rightarrow> string option"
  generateLink :: "string option \<Rightarrow> string option"

record request_data =
  rpId :: string
  rpName :: string
  email :: "string option"
  challengeId :: "string option"
  response :: "authenticator_response option"
  authenticatorName :: "string option"
  credentialId :: "string option"

text \<open>
  The ceremony options, as far as the edge function determines them: the arguments it
  passes to \<open>generateRegistrationOptions\<close> and \<open>generateAuthenticationOptions\<close>,
  and the nonce that the builder draws.
\<close>

record registration_options =
  ro_rpName :: string
  ro_rpID :: string
  ro_userName :: "string option"
  ro_userID :: string
  ro_challenge :: string
  ro_excludeCredentials :: "string list"

record authentication_options =
  ao_rpID :: string
  ao_challenge :: string
  ao_allowCredentials :: "string list option"

record passkey_view =
  pv_id :: string
  pv_authenticatorName :: "string option"
  pv_deviceType :: device_type
  pv_backedUp :: bool
  pv_createdAt :: timestamp
  pv_lastUsedAt :: "timestamp option"

datatype response_data =
    RegisterStart registration_options string
  | RegisterFinish bool "string option" "passkey_view option"
  | LoginStart authentication_options string
  | LoginFinish bool "string option" "string option"
  | PasskeyRemoved bool
  | PasskeyUpdated passkey_credential

datatype api_response = success response_data | error string string

definition CHALLENGE_TTL_MINUTES :: nat where
  "CHALLENGE_TTL_MINUTES = 5"

definition RATE_LIMITS_ip_maxAttempts :: int where
  "RATE_LIMITS_ip_maxAttempts = 5"

definition RATE_LIMITS_email_maxAttempts :: int where
  "RATE_LIMITS_email_maxAttempts = 10"

text \<open>JavaScript truthiness of an optional string: \<open>undefined\<close> and \<open>''\<close> are falsy.\<close>

definition truthy :: "string option \<Rightarrow> bool" where
  "truthy s \<longleftrightarrow> s \<noteq> None \<and> s \<noteq> Some []"

text \<open>\<open>.single()\<close>: the row when the query returns exactly one, otherwise no data.\<close>

definition single :: "'a list \<Rightarrow> 'a option" where
  "single rows = (case rows of [r] \<Rightarrow> Some r | _ \<Rightarrow> None)"

definition audit :: "environment \<Rightarrow> passkey_audit_event \<Rightarrow> audit_row" where
  "audit e ev =
     \<lparr>event_type = ev, p_user_id = None, p_credential_id = None, p_email = None,
      p_ip_address = Some (clientIP e), p_origin = None, p_error_message = None,
      created_at = now e\<rparr>"

text \<open>
  The \<open>rpc('check_passkey_rate_limit', ...)\<close> call of the two start endpoints and the
  test \<open>ipBlocked.error || ipBlocked.data\<close> on its result.
\<close>

definition ipBlocked :: "environment \<Rightarrow> string \<Rightarrow> database \<Rightarrow> database \<times> bool" where
  "ipBlocked e endpoint db =
     (case check_passkey_rate_limit (clientIP e) ''ip'' endpoint RATE_LIMITS_ip_maxAttempts
             (now e) (passkey_rate_limits db) of
        Inl err \<Rightarrow> (db, True)
      | Inr (tbl, blocked) \<Rightarrow> (db\<lparr>passkey_rate_limits := tbl\<rparr>, blocked))"

text \<open>
  \<open>from('passkey_challenges').insert(...).select().single()\<close>: the primary key
  \<open>id\<close> and the column \<open>challenge\<close> are unique; a violation inserts nothing and
  returns no data.
\<close>

definition insert_challenge ::
  "passkey_challenge \<Rightarrow> database \<Rightarrow> database \<times> passkey_challenge option" where
  "insert_challenge row db =
     (if \<exists>c \<in> set (passkey_challenges db). ch_id c = ch_id row \<or> ch_challenge c = ch_challenge row
      then (db, None)
      else (db\<lparr>passkey_challenges := passkey_challenges db @ [row]\<rparr>, Some row))"

text \<open>\<open>from('passkey_challenges').delete().eq('id', challengeId)\<close>.\<close>

definition delete_challenge :: "string option \<Rightarrow> database \<Rightarrow> database" where
  "delete_challenge cid db =
     db\<lparr>passkey_challenges := filter (\<lambda>c. Some (ch_id c) \<noteq> cid) (passkey_challenges db)\<rparr>"

text \<open>\<open>.select('*').eq('id', challengeId).eq('type', ...).single()\<close>.\<close>

definition select_challenge ::
  "string option \<Rightarrow> challenge_type \<Rightarrow> database \<Rightarrow> passkey_challenge option" where
  "select_challenge cid ty db =
     single (filter (\<lambda>c. Some (ch_id c) = cid \<and> ch_type c = ty) (passkey_challenges db))"


subsection \<open>/register/start\<close>

definition register_start ::
  "environment \<Rightarrow> request_data \<Rightarrow> database \<Rightarrow> database \<times> api_response" where
  "register_start e d db =
     (case ipBlocked e ''/register/start'' db of (db1, blocked) \<Rightarrow>
        if blocked then (db1, error ''RATE_LIMITED'' ''Too many requests'')
        else
          let webauthnUserId = generateWebAuthnUserId e;
              existingUser = take 1 (filter (\<lambda>c. cr_webauthn_user_id c = webauthnUserId)
                                       (passkey_credentials db1));
              excludeCredentials = map cr_id existingUser;
              options = \<lparr>ro_rpName = rpName d, ro_rpID = rpId d, ro_userName = email d,
                         ro_userID = webauthnUserId, ro_challenge = options_challenge e,
                         ro_excludeCredentials = excludeCredentials\<rparr>;
              expiresAt = now e + CHALLENGE_TTL_MINUTES * 60 * 1000
          in case insert_challenge
                    \<lparr>ch_id = gen_random_uuid e, ch_challenge = ro_challenge options,
                     ch_email = email d, ch_webauthn_user_id = Some webauthnUserId,
                     ch_type = Registration, ch_expires_at = expiresAt\<rparr> db1 of
               (db2, challenge) \<Rightarrow>
                 let db3 = log_passkey_audit_event
                             ((audit e registration_started)
                                \<lparr>p_email := email d, p_origin := Some (origin e)\<rparr>) db2
                 in (case challenge of
                       None \<Rightarrow> (db3, error ''UNKNOWN_ERROR'' ''Internal server error'')
                     | Some ch \<Rightarrow> (db3, success (RegisterStart options (ch_id ch)))))"

subsection \<open>/register/finish\<close>

text \<open>The \<open>catch\<close> block of the verification.\<close>

definition registration_failed_result ::
  "environment \<Rightarrow> passkey_challenge \<Rightarrow> string \<Rightarrow> database \<Rightarrow> database \<times> api_response" where
  "registration_failed_result e ch msg db =
     (log_passkey_audit_event
        ((audit e registration_failed)\<lparr>p_email := ch_email ch, p_error_message := Some msg\<rparr>) db,
      error ''VERIFICATION_FAILED'' ''Registration verification failed'')"

text \<open>
  \<open>from('passkey_credentials').insert(...).select().single()\<close>: nothing is inserted
  and no data comes back when the primary key \<open>id\<close> is taken, when the challenge has
  no \<open>webauthn_user_id\<close> for the \<open>NOT NULL\<close> column, or when the name is longer than
  the 255 characters of its column.
\<close>

definition insert_credential ::
  "environment \<Rightarrow> passkey_challenge \<Rightarrow> registrationInfo \<Rightarrow> string \<Rightarrow> string option \<Rightarrow> database
     \<Rightarrow> database \<times> passkey_credential option" where
  "insert_credential e ch info userId name db =
     (case ch_webauthn_user_id ch of
        None \<Rightarrow> (db, None)
      | Some wid \<Rightarrow>
          if (\<exists>c \<in> set (passkey_credentials db). cr_id c = credential_id info)
             \<or> (case name of None \<Rightarrow> False | Some n \<Rightarrow> length n > 255)
          then (db, None)
          else
            let row = \<lparr>cr_id = credential_id info, cr_user_id = userId,
                       cr_webauthn_user_id = wid, cr_public_key = credential_publicKey info,
                       cr_counter = credential_counter info,
                       cr_device_type = credentialDeviceType info,
                       cr_backed_up = credentialBackedUp info,
                       cr_transports = credential_transports info,
                       cr_authenticator_name = name, cr_created_at = now e,
                       cr_last_used_at = None\<rparr>
            in (db\<lparr>passkey_credentials := passkey_credentials db @ [row]\<rparr>, Some row))"

definition passkey_view_of :: "passkey_credential \<Rightarrow> passkey_view" where
  "passkey_view_of c =
     \<lparr>pv_id = cr_id c, pv_authenticatorName = cr_authenticator_name c,
      pv_deviceType = cr_device_type c, pv_backedUp = cr_backed_up c,
      pv_createdAt = cr_created_at c, pv_lastUsedAt = cr_last_used_at c\<rparr>"

text \<open>The part of the \<open>try\<close> block after a successful verification.\<close>

definition registration_verified ::
  "environment \<Rightarrow> request_data \<Rightarrow> passkey_challenge \<Rightarrow> registrationInfo \<Rightarrow> database
     \<Rightarrow> database \<times> api_response" where
  "registration_verified e d ch info db =
     (let existingUser = find (\<lambda>u. u_email u \<noteq> None \<and> u_email u = ch_email ch) (auth_users db);
          created = (case existingUser of
                       Some u \<Rightarrow> Some (u_id u, db)
                     | None \<Rightarrow>
                         (case createUser e (ch_email ch) of
                            None \<Rightarrow> None
                          | Some uid \<Rightarrow>
                              Some (uid, db\<lparr>auth_users := auth_users db
                                             @ [\<lparr>u_id = uid, u_email = ch_email ch\<rparr>]\<rparr>)))
      in case created of
           None \<Rightarrow> registration_failed_result e ch
                     ''Cannot read properties of null (reading 'id')'' db
         | Some (userId, db1) \<Rightarrow>
             let name = (if truthy (authenticatorName d) then authenticatorName d else None)
             in case insert_credential e ch info userId name db1 of
                  (db2, insertedCred) \<Rightarrow>
                    let tokenHash = generateLink e (ch_email ch);
                        db3 = log_passkey_audit_event
                                ((audit e registration_completed)
                                   \<lparr>p_user_id := Some userId,
                                    p_credential_id := Some (credential_id info),
                                    p_email := ch_email ch\<rparr>) db2
                    in (db3, success (RegisterFinish True tokenHash
                                        (map_option passkey_view_of insertedCred))))"

definition register_finish ::
  "environment \<Rightarrow> request_data \<Rightarrow> database \<Rightarrow> database \<times> api_response" where
  "register_finish e d db =
     (let challenge = select_challenge (challengeId d) Registration db;
          db1 = delete_challenge (challengeId d) db
      in case challenge of
           None \<Rightarrow> (db1, error ''CHALLENGE_MISMATCH'' ''Invalid or expired challenge'')
         | Some ch \<Rightarrow>
             if ch_expires_at ch < now e then
               (log_passkey_audit_event
                  ((audit e challenge_expired)\<lparr>p_email := ch_email ch\<rparr>) db1,
                error ''CHALLENGE_EXPIRED'' ''Challenge has expired'')
             else
               (case verifyRegistrationResponse e (response d) (ch_challenge ch) (origin e)
                       (rpId d) of
                  Threw msg \<Rightarrow> registration_failed_result e ch msg db1
                | Returned (verified, info) \<Rightarrow>
                    (case info of
                       None \<Rightarrow> registration_failed_result e ch ''Verification failed'' db1
                     | Some i \<Rightarrow>
                         if \<not> verified
                         then registration_failed_result e ch ''Verification failed'' db1
                         else registration_verified e d ch i db1)))"

subsection \<open>/login/start\<close>

definition login_start ::
  "environment \<Rightarrow> request_data \<Rightarrow> database \<Rightarrow> database \<times> api_response" where
  "login_start e d db =
     (case ipBlocked e ''/login/start'' db of (db1, blocked) \<Rightarrow>
        if blocked then (db1, error ''RATE_LIMITED'' ''Too many requests'')
        else
          let userEmail = email d;
              lookup =
                (if truthy (email d) then
                   (case find (\<lambda>u. u_email u = email d) (auth_users db1) of
                      None \<Rightarrow> None
                    | Some user \<Rightarrow>
                        let credentials = filter (\<lambda>c. cr_user_id c = u_id user)
                                            (passkey_credentials db1)
                        in if credentials = [] then None
                           else Some (Some (map cr_id credentials)))
                 else Some None)
          in (case lookup of
               None \<Rightarrow> (db1, error ''CREDENTIAL_NOT_FOUND'' ''No passkey found for this email'')
             | Some allowCredentials \<Rightarrow>
                 let options = \<lparr>ao_rpID = rpId d, ao_challenge = options_challenge e,
                                ao_allowCredentials = allowCredentials\<rparr>;
                     expiresAt = now e + CHALLENGE_TTL_MINUTES * 60 * 1000
                 in case insert_challenge
                           \<lparr>ch_id = gen_random_uuid e, ch_challenge = ao_challenge options,
                            ch_email = userEmail, ch_webauthn_user_id = None,
                            ch_type = Authentication, ch_expires_at = expiresAt\<rparr> db1 of
                      (db2, challenge) \<Rightarrow>
                        let db3 = log_passkey_audit_event
                                    ((audit e authentication_started)\<lparr>p_email := userEmail\<rparr>) db2
                        in (case challenge of
                              None \<Rightarrow> (db3, error ''UNKNOWN_ERROR'' ''Internal server error'')
                            | Some ch \<Rightarrow> (db3, success (LoginStart options (ch_id ch))))))"

subsection \<open>/login/finish\<close>

definition authentication_failed_result ::
  "environment \<Rightarrow> string \<Rightarrow> string \<Rightarrow> database \<Rightarrow> database \<times> api_response" where
  "authentication_failed_result e cid msg db =
     (log_passkey_audit_event
        ((audit e authentication_failed)
           \<lparr>p_credential_id := Some cid, p_error_message := Some msg\<rparr>) db,
      error ''VERIFICATION_FAILED'' ''Authentication verification failed'')"

text \<open>
  \<open>from('passkey_credentials').update({counter, last_used_at}).eq('id', credentialId)\<close>.
\<close>

definition update_counter :: "string \<Rightarrow> int \<Rightarrow> timestamp \<Rightarrow> database \<Rightarrow> database" where
  "update_counter cid newCounter t db =
     db\<lparr>passkey_credentials :=
          map (\<lambda>c. if cr_id c = cid then c\<lparr>cr_counter := newCounter, cr_last_used_at := Some t\<rparr>
                   else c)
            (passkey_credentials db)\<rparr>"

text \<open>The part of the \<open>try\<close> block after a successful verification.\<close>

definition authentication_verified ::
  "environment \<Rightarrow> passkey_challenge \<Rightarrow> string \<Rightarrow> passkey_credential \<Rightarrow> int \<Rightarrow> database
     \<Rightarrow> database \<times> api_response" where
  "authentication_verified e ch credId credential newCounter db =
     (let db1 = update_counter credId newCounter (now e) db;
          userData = find (\<lambda>u. u_id u = cr_user_id credential) (auth_users db1);
          userEmail = (case userData of
                         None \<Rightarrow> ch_email ch
                       | Some u \<Rightarrow> if truthy (u_email u) then u_email u else ch_email ch);
          tokenHash = generateLink e userEmail;
          db2 = log_passkey_audit_event
                  ((audit e authentication_completed)
                     \<lparr>p_user_id := Some (cr_user_id credential),
                      p_credential_id := Some credId\<rparr>) db1
      in (db2, success (LoginFinish True tokenHash userEmail)))"

definition login_finish ::
  "environment \<Rightarrow> request_data \<Rightarrow> database \<Rightarrow> database \<times> api_response" where
  "login_finish e d db =
     (let challenge = select_challenge (challengeId d) Authentication db;
          db1 = delete_challenge (challengeId d) db
      in case challenge of
           None \<Rightarrow> (db1, error ''CHALLENGE_MISMATCH'' ''Invalid or expired challenge'')
         | Some ch \<Rightarrow>
             if ch_expires_at ch < now e then
               (db1, error ''CHALLENGE_EXPIRED'' ''Challenge has expired'')
             else
               (case response d of
                  None \<Rightarrow> (db1, error ''UNKNOWN_ERROR'' ''Internal server error'')
                | Some authResponse \<Rightarrow>
                    (case single (filter (\<lambda>c. cr_id c = resp_id authResponse)
                                    (passkey_credentials db1)) of
                       None \<Rightarrow> (db1, error ''CREDENTIAL_NOT_FOUND'' ''Credential not found'')
                     | Some credential \<Rightarrow>
                         (case verifyAuthenticationResponse e authResponse (ch_challenge ch)
                                 (origin e) (rpId d)
                                 (cr_id credential, cr_public_key credential,
                                  cr_counter credential) of
                            Threw msg \<Rightarrow>
                              authentication_failed_result e (resp_id authResponse) msg db1
                          | Returned (verified, newCounter) \<Rightarrow>
                              if \<not> verified
                              then authentication_failed_result e (resp_id authResponse)
                                     ''Verification failed'' db1
                              else authentication_verified e ch (resp_id authResponse)
                                     credential newCounter db1))))"

subsection \<open>/passkeys/remove and /passkeys/update\<close>

definition passkeys_remove ::
  "environment \<Rightarrow> request_data \<Rightarrow> database \<Rightarrow> database \<times> api_response" where
  "passkeys_remove e d db =
     (case session_user e of
        None \<Rightarrow> (db, error ''UNAUTHORIZED'' ''Authentication required'')
      | Some uid \<Rightarrow>
          let removeCredId = credentialId d;
              db1 = db\<lparr>passkey_credentials :=
                         filter (\<lambda>c. \<not> (Some (cr_id c) = removeCredId \<and> cr_user_id c = uid))
                           (passkey_credentials db)\<rparr>;
              db2 = log_passkey_audit_event
                      ((audit e passkey_removed)
                         \<lparr>p_user_id := Some uid, p_credential_id := removeCredId\<rparr>) db1
          in (db2, success (PasskeyRemoved True)))"

text \<open>
  \<open>.update({authenticator_name}).eq('id', updateCredId).eq('user_id', user.id)
  .select().single()\<close>: the changed row comes back when exactly one row matches.
  Otherwise (no row matches, no name is given, or the name is longer than the 255
  characters of its column) nothing is changed and no data comes back.
\<close>

definition passkeys_update ::
  "environment \<Rightarrow> request_data \<Rightarrow> database \<Rightarrow> database \<times> api_response" where
  "passkeys_update e d db =
     (case session_user e of
        None \<Rightarrow> (db, error ''UNAUTHORIZED'' ''Authentication required'')
      | Some uid \<Rightarrow>
          let updateCredId = credentialId d;
              matches = (\<lambda>c. Some (cr_id c) = updateCredId \<and> cr_user_id c = uid);
              rename = (\<lambda>c. c\<lparr>cr_authenticator_name := authenticatorName d\<rparr>);
              accepted = (case authenticatorName d of None \<Rightarrow> False | Some n \<Rightarrow> length n \<le> 255);
              updated = (if accepted
                         then single (map rename (filter matches (passkey_credentials db)))
                         else None)
          in (case updated of
                None \<Rightarrow> (db, error ''CREDENTIAL_NOT_FOUND'' ''Passkey not found'')
              | Some row \<Rightarrow>
                  (log_passkey_audit_event
                     ((audit e passkey_updated)
                        \<lparr>p_user_id := Some uid, p_credential_id := updateCredId\<rparr>)
                     (db\<lparr>passkey_credentials :=
                           map (\<lambda>c. if matches c then rename c else c)
                             (passkey_credentials db)\<rparr>),
                   success (PasskeyUpdated row))))"


section \<open>Runs and observations used in the statements\<close>

text \<open>
  A run of calls of \<open>check_passkey_rate_limit\<close> for one identifier, type, endpoint and
  ceiling, at the given times: for each call whether the request is rejected, that is,
  whether the caller's test \<open>ipBlocked.error || ipBlocked.data\<close> holds.
\<close>

fun rate_limit_run ::
  "string \<Rightarrow> string \<Rightarrow> string \<Rightarrow> int \<Rightarrow> timestamp list \<Rightarrow> (rate_limit_key \<rightharpoonup> int) \<Rightarrow> bool list" where
  "rate_limit_run p_identifier p_identifier_type p_endpoint p_max_attempts [] tbl = []"
| "rate_limit_run p_identifier p_identifier_type p_endpoint p_max_attempts (NOW # ts) tbl =
     (case check_passkey_rate_limit p_identifier p_identifier_type p_endpoint p_max_attempts
             NOW tbl of
        Inl err \<Rightarrow>
          True # rate_limit_run p_identifier p_identifier_type p_endpoint p_max_attempts ts tbl
      | Inr (tbl', blocked) \<Rightarrow>
          blocked # rate_limit_run p_identifier p_identifier_type p_endpoint p_max_attempts ts tbl')"

text \<open>The attempt count of a window; a window without a row has seen no attempt.\<close>

definition attempt_count :: "(rate_limit_key \<rightharpoonup> int) \<Rightarrow> rate_limit_key \<Rightarrow> int" where
  "attempt_count tbl key = (case tbl key of None \<Rightarrow> 0 | Some n \<Rightarrow> n)"


text \<open>
  The two finish endpoints, by the kind of challenge each one accepts:
  \<open>/register/finish\<close> and \<open>/login/finish\<close>.
\<close>

fun finish_call ::
  "challenge_type \<Rightarrow> environment \<Rightarrow> request_data \<Rightarrow> database \<Rightarrow> database \<times> api_response" where
  "finish_call Registration = register_finish"
| "finish_call Authentication = login_finish"

text \<open>
  The two start endpoints, by the kind of challenge each one creates, and the endpoint
  name that each passes to the rate limiter.
\<close>

fun start_call ::
  "challenge_type \<Rightarrow> environment \<Rightarrow> request_data \<Rightarrow> database \<Rightarrow> database \<times> api_response" where
  "start_call Registration = register_start"
| "start_call Authentication = login_start"

fun start_endpoint :: "challenge_type \<Rightarrow> string" where
  "start_endpoint Registration = ''/register/start''"
| "start_endpoint Authentication = ''/login/start''"


section \<open>A concrete deployment\<close>

text \<open>
  Two accounts; Alice has one passkey with stored counter 7, Bob has none. Four
  challenges are in flight, one live and one expired of each kind. The request arrives
  at time 600123, in the window that starts at 600000. The sample verifier for
  authentication applies the counter rule of the verifier that the edge function
  imports (\<open>@simplewebauthn/server\<close> 11.0.0: it throws when one of the two counters
  is positive and the response counter is not greater than the stored one) and checks
  nothing else; the sample verifier for registration rejects everything.
\<close>

definition alice :: auth_user where
  "alice = \<lparr>u_id = ''user-a'', u_email = Some ''alice@example.com''\<rparr>"

definition bob :: auth_user where
  "bob = \<lparr>u_id = ''user-b'', u_email = Some ''bob@example.com''\<rparr>"

definition alice_credential :: passkey_credential where
  "alice_credential =
     \<lparr>cr_id = ''cred-a'', cr_user_id = ''user-a'', cr_webauthn_user_id = ''w-alice'',
      cr_public_key = [4, 1], cr_counter = 7, cr_device_type = multiDevice,
      cr_backed_up = False, cr_transports = None, cr_authenticator_name = Some ''Laptop'',
      cr_created_at = 1000, cr_last_used_at = None\<rparr>"

definition live_registration :: passkey_challenge where
  "live_registration =
     \<lparr>ch_id = ''c-reg'', ch_challenge = ''nonce-1'', ch_email = Some ''alice@example.com'',
      ch_webauthn_user_id = Some ''w-1'', ch_type = Registration, ch_expires_at = 900000\<rparr>"

definition live_authentication :: passkey_challenge where
  "live_authentication =
     \<lparr>ch_id = ''c-auth'', ch_challenge = ''nonce-2'', ch_email = Some ''alice@example.com'',
      ch_webauthn_user_id = None, ch_type = Authentication, ch_expires_at = 900000\<rparr>"

definition expired_registration :: passkey_challenge where
  "expired_registration =
     \<lparr>ch_id = ''c-reg-old'', ch_challenge = ''nonce-3'', ch_email = Some ''alice@example.com'',
      ch_webauthn_user_id = Some ''w-3'', ch_type = Registration, ch_expires_at = 100\<rparr>"

definition expired_authentication :: passkey_challenge where
  "expired_authentication =
     \<lparr>ch_id = ''c-auth-old'', ch_challenge = ''nonce-4'', ch_email = Some ''alice@example.com'',
      ch_webauthn_user_id = None, ch_type = Authentication, ch_expires_at = 100\<rparr>"

definition sample_db :: database where
  "sample_db =
     \<lparr>passkey_challenges =
        [live_registration, live_authentication, expired_registration, expired_authentication],
      passkey_credentials = [alice_credential],
      passkey_rate_limits = Map.empty,
      passkey_audit_log = [],
      auth_users = [alice, bob]\<rparr>"

definition sample_env :: environment where
  "sample_env =
     \<lparr>now = 600123, origin = ''https://app.example'', clientIP = ''203.0.113.7'',
      session_user = None, gen_random_uuid = ''c-new'', generateWebAuthnUserId = ''w-new'',
      options_challenge = ''nonce-9'',
      verifyRegistrationResponse = (\<lambda>r ch org rp. Threw ''Unexpected attestation''),
      verifyAuthenticationResponse =
        (\<lambda>r ch org rp cred.
           case cred of (cid, pk, stored) \<Rightarrow>
             if (resp_signCount r > 0 \<or> stored > 0) \<and> resp_signCount r \<le> stored
             then Threw ''Response counter value was lower than expected''
             else Returned (True, resp_signCount r)),
      createUser = (\<lambda>em. Some ''user-new''),
      generateLink = (\<lambda>em. Some ''hashed-token'')\<rparr>"

definition sample_request :: request_data where
  "sample_request =
     \<lparr>rpId = ''app.example'', rpName = ''App'', email = None, challengeId = None,
      response = None, authenticatorName = None, credentialId = None\<rparr>"

text \<open>An assertion by Alice's passkey with the given signature counter.\<close>

definition assertion :: "int \<Rightarrow> authenticator_response" where
  "assertion n = \<lparr>resp_id = ''cred-a'', resp_signCount = n, resp_data = ''signed''\<rparr>"

text \<open>
  The rate-limit table after the client address has made the given number of attempts
  on an endpoint in the current window.
\<close>

definition attempts_made :: "string \<Rightarrow> int \<Rightarrow> (rate_limit_key \<rightharpoonup> int)" where
  "attempts_made endpoint n = [(''203.0.113.7'', ''ip'', endpoint, 600000) \<mapsto> n]"


section \<open>Evaluation rules\<close>

lemmas scenario =
  alice_def bob_def alice_credential_def live_registration_def live_authentication_def
  expired_registration_def expired_authentication_def sample_db_def sample_env_def
  sample_request_def assertion_def attempts_made_def

lemmas sql =
  check_passkey_rate_limit_def date_trunc_minute_def INTEGER_MAX_def
  log_passkey_audit_event_def ipBlocked_def insert_challenge_def delete_challenge_def
  select_challenge_def single_def audit_def truthy_def RATE_LIMITS_ip_maxAttempts_def
  CHALLENGE_TTL_MINUTES_def

section \<open>The client error mapper\<close>

















section \<open>The rate limiter\<close>

lemma check_passkey_rate_limit_step:
  assumes "p_identifier_type = ''ip'' \<or> p_identifier_type = ''email''"
    and "length p_endpoint \<le> 50"
  shows "check_passkey_rate_limit p_identifier p_identifier_type p_endpoint K NOW tbl =
     (let key = (p_identifier, p_identifier_type, p_endpoint, date_trunc_minute NOW);
          n = attempt_count tbl key + 1
      in if n > INTEGER_MAX then Inl numeric_value_out_of_range
         else Inr (tbl(key \<mapsto> n), n > K))"
  using assms
  by (auto simp: check_passkey_rate_limit_def attempt_count_def Let_def split: option.splits)

lemma length_rate_limit_run [simp]:
  "length (rate_limit_run i ty ep K ts tbl) = length ts"
  by (induction ts arbitrary: tbl) (auto split: sum.splits)

lemma rate_limit_run_nth:
  assumes ty: "ty = ''ip'' \<or> ty = ''email''" and ep: "length ep \<le> 50"
    and K: "K \<le> INTEGER_MAX"
  shows "\<forall>t \<in> set ts. date_trunc_minute t = w \<Longrightarrow> n < length ts \<Longrightarrow>
     rate_limit_run i ty ep K ts tbl ! n = (K < attempt_count tbl (i, ty, ep, w) + int n + 1)"
proof (induction ts arbitrary: tbl n)
  case Nil
  then show ?case by simp
next
  case (Cons t ts)
  let ?key = "(i, ty, ep, w)"
  let ?c = "attempt_count tbl ?key"
  have w: "date_trunc_minute t = w" using Cons.prems by simp
  have rest: "\<forall>t \<in> set ts. date_trunc_minute t = w" using Cons.prems by simp
  show ?case
  proof (cases "?c + 1 > INTEGER_MAX")
    case True
    then have run: "rate_limit_run i ty ep K (t # ts) tbl = True # rate_limit_run i ty ep K ts tbl"
      by (simp add: check_passkey_rate_limit_step [OF ty ep] w Let_def)
    show ?thesis
    proof (cases n)
      case 0
      then show ?thesis using run True K by simp
    next
      case (Suc m)
      then have "m < length ts" using Cons.prems by simp
      then have "rate_limit_run i ty ep K ts tbl ! m = (K < ?c + int m + 1)"
        using Cons.IH [OF rest] by blast
      then show ?thesis using run Suc True K by simp
    qed
  next
    case False
    then have run: "rate_limit_run i ty ep K (t # ts) tbl =
        (K < ?c + 1) # rate_limit_run i ty ep K ts (tbl(?key \<mapsto> ?c + 1))"
      by (simp add: check_passkey_rate_limit_step [OF ty ep] w Let_def)
    show ?thesis
    proof (cases n)
      case 0
      then show ?thesis using run by simp
    next
      case (Suc m)
      then have "m < length ts" using Cons.prems by simp
      then have "rate_limit_run i ty ep K ts (tbl(?key \<mapsto> ?c + 1)) ! m =
          (K < attempt_count (tbl(?key \<mapsto> ?c + 1)) ?key + int m + 1)"
        using Cons.IH [OF rest] by blast
      then show ?thesis using run Suc by (simp add: attempt_count_def)
    qed
  qed
qed

text \<open>
  C5. A call of the limiter is one step on the table: it stores the incremented count of
  the current window and compares that stored, incremented count with the ceiling (an
  increment that leaves the range of \<open>INTEGER\<close> raises instead, which the caller
  treats as blocked). Hence, for a window without a row and a ceiling \<open>K\<close>, of the
  attempts made within that window the attempt number \<open>n + 1\<close> is rejected exactly when
  \<open>K < n + 1\<close>: attempts 1 to \<open>K\<close> are allowed and attempt \<open>K + 1\<close> is the first
  one rejected.
\<close>

theorem rate_limit_ceiling:
  assumes "p_identifier_type = ''ip'' \<or> p_identifier_type = ''email''"
    and "length p_endpoint \<le> 50"
    and "K \<le> INTEGER_MAX"
    and "\<forall>t \<in> set ts. date_trunc_minute t = w"
    and "tbl (p_identifier, p_identifier_type, p_endpoint, w) = None"
  shows "(\<forall>NOW tbl'.
            check_passkey_rate_limit p_identifier p_identifier_type p_endpoint K NOW tbl' =
              (let key = (p_identifier, p_identifier_type, p_endpoint, date_trunc_minute NOW);
                   n = attempt_count tbl' key + 1
               in if n > INTEGER_MAX then Inl numeric_value_out_of_range
                  else Inr (tbl'(key \<mapsto> n), n > K))) \<and>
         length (rate_limit_run p_identifier p_identifier_type p_endpoint K ts tbl) = length ts \<and>
         (\<forall>n < length ts.
            rate_limit_run p_identifier p_identifier_type p_endpoint K ts tbl ! n
              = (K < int n + 1))"
proof (intro conjI allI impI)
  fix NOW tbl'
  show "check_passkey_rate_limit p_identifier p_identifier_type p_endpoint K NOW tbl' =
          (let key = (p_identifier, p_identifier_type, p_endpoint, date_trunc_minute NOW);
               n = attempt_count tbl' key + 1
           in if n > INTEGER_MAX then Inl numeric_value_out_of_range
              else Inr (tbl'(key \<mapsto> n), n > K))"
    by (rule check_passkey_rate_limit_step [OF assms(1,2)])
next
  show "length (rate_limit_run p_identifier p_identifier_type p_endpoint K ts tbl) = length ts"
    by simp
next
  fix n
  assume "n < length ts"
  then show "rate_limit_run p_identifier p_identifier_type p_endpoint K ts tbl ! n
               = (K < int n + 1)"
    using rate_limit_run_nth [OF assms(1,2,3,4), where tbl = tbl and i = p_identifier]
      assms(5)
    by (simp add: attempt_count_def)
qed

text \<open>
  Seven attempts from one address on \<open>/register/start\<close> within the minute that starts
  at 600000, ceiling 5: the fifth is allowed, the sixth is rejected.
\<close>

theorem rate_limit_ceiling_witness:
  "rate_limit_run ''203.0.113.7'' ''ip'' ''/register/start'' 5
     [600000, 600001, 600500, 612000, 630000, 645000, 659999] Map.empty ! 4 = False \<and>
   rate_limit_run ''203.0.113.7'' ''ip'' ''/register/start'' 5
     [600000, 600001, 600500, 612000, 630000, 645000, 659999] Map.empty ! 5 = True"
proof -
  let ?ts = "[600000, 600001, 600500, 612000, 630000, 645000, 659999] :: timestamp list"
  let ?run = "rate_limit_run ''203.0.113.7'' ''ip'' ''/register/start'' 5 ?ts Map.empty"
  have ty: "''ip'' = ''ip'' \<or> ''ip'' = ''email''"
    by simp
  have ep: "length ''/register/start'' \<le> 50"
    by simp
  have K: "5 \<le> INTEGER_MAX"
    by (simp add: INTEGER_MAX_def)
  have window: "\<forall>t \<in> set ?ts. date_trunc_minute t = 600000"
    by (simp add: date_trunc_minute_def)
  have fresh: "Map.empty (''203.0.113.7'', ''ip'', ''/register/start'', 600000 :: timestamp) = None"
    by simp
  note nth = rate_limit_ceiling [OF ty ep K window fresh, THEN conjunct2, THEN conjunct2,
      rule_format]
  have fifth: "?run ! 4 = (5 < int 4 + 1)"
    by (rule nth) simp
  have sixth: "?run ! 5 = (5 < int 5 + 1)"
    by (rule nth) simp
  show ?thesis
    unfolding fifth sixth by simp
qed

section \<open>Challenges are consumed by the first finish call\<close>

lemma passkey_challenges_log [simp]:
  "passkey_challenges (log_passkey_audit_event row db) = passkey_challenges db"
  by (simp add: log_passkey_audit_event_def)

lemma passkey_challenges_delete [simp]:
  "passkey_challenges (delete_challenge cid db) =
     filter (\<lambda>c. Some (ch_id c) \<noteq> cid) (passkey_challenges db)"
  by (simp add: delete_challenge_def)

lemma passkey_credentials_delete [simp]:
  "passkey_credentials (delete_challenge cid db) = passkey_credentials db"
  by (simp add: delete_challenge_def)

lemma passkey_challenges_registration_failed [simp]:
  "passkey_challenges (fst (registration_failed_result e ch msg db)) = passkey_challenges db"
  by (simp add: registration_failed_result_def)

lemma passkey_challenges_insert_credential [simp]:
  "passkey_challenges (fst (insert_credential e ch info uid name db)) = passkey_challenges db"
  by (simp add: insert_credential_def Let_def split: option.splits)

lemma passkey_challenges_registration_verified [simp]:
  "passkey_challenges (fst (registration_verified e d ch info db)) = passkey_challenges db"
  by (simp add: registration_verified_def Let_def case_prod_beta split: option.splits)

lemma passkey_challenges_authentication_failed [simp]:
  "passkey_challenges (fst (authentication_failed_result e cid msg db)) = passkey_challenges db"
  by (simp add: authentication_failed_result_def)

lemma passkey_challenges_authentication_verified [simp]:
  "passkey_challenges (fst (authentication_verified e ch cid cred n db)) = passkey_challenges db"
  by (simp add: authentication_verified_def update_counter_def Let_def)

lemma register_finish_challenges:
  "passkey_challenges (fst (register_finish e d db)) =
     filter (\<lambda>c. Some (ch_id c) \<noteq> challengeId d) (passkey_challenges db)"
  by (simp add: register_finish_def Let_def case_prod_beta split: option.splits outcome.splits)

lemma login_finish_challenges:
  "passkey_challenges (fst (login_finish e d db)) =
     filter (\<lambda>c. Some (ch_id c) \<noteq> challengeId d) (passkey_challenges db)"
  by (simp add: login_finish_def Let_def case_prod_beta split: option.splits outcome.splits)

lemma finish_call_challenges:
  "passkey_challenges (fst (finish_call k e d db)) =
     filter (\<lambda>c. Some (ch_id c) \<noteq> challengeId d) (passkey_challenges db)"
  by (cases k) (simp_all add: register_finish_challenges login_finish_challenges)

lemma select_challenge_absent:
  assumes "\<forall>c \<in> set (passkey_challenges db). Some (ch_id c) \<noteq> cid"
  shows "select_challenge cid ty db = None"
proof -
  have "filter (\<lambda>c. Some (ch_id c) = cid \<and> ch_type c = ty) (passkey_challenges db) = []"
    using assms by (simp add: filter_empty_conv)
  then show ?thesis by (simp add: select_challenge_def single_def)
qed

lemma finish_call_absent:
  "select_challenge (challengeId d) k db = None \<Longrightarrow>
   snd (finish_call k e d db) = error ''CHALLENGE_MISMATCH'' ''Invalid or expired challenge''"
  by (cases k) (simp_all add: register_finish_def login_finish_def)

text \<open>
  C1. After a finish call of either kind, whatever its outcome, the store holds no
  challenge with the ceremony identity that the call named; and a further finish call of
  either kind that names the same identity, on the store that the first call left,
  returns \<open>CHALLENGE_MISMATCH\<close>.
\<close>

theorem challenge_single_use:
  "(\<forall>c \<in> set (passkey_challenges (fst (finish_call k e d db))). Some (ch_id c) \<noteq> challengeId d) \<and>
   (challengeId d' = challengeId d \<longrightarrow>
      snd (finish_call k' e' d' (fst (finish_call k e d db))) =
        error ''CHALLENGE_MISMATCH'' ''Invalid or expired challenge'')"
proof (intro conjI impI)
  show gone: "\<forall>c \<in> set (passkey_challenges (fst (finish_call k e d db))).
                Some (ch_id c) \<noteq> challengeId d"
    by (simp add: finish_call_challenges)
  assume "challengeId d' = challengeId d"
  then have "select_challenge (challengeId d') k' (fst (finish_call k e d db)) = None"
    using gone by (simp add: select_challenge_absent)
  then show "snd (finish_call k' e' d' (fst (finish_call k e d db))) =
        error ''CHALLENGE_MISMATCH'' ''Invalid or expired challenge''"
    by (rule finish_call_absent)
qed

text \<open>
  Alice signs in with counter 8 against her live challenge and the call succeeds; the
  same request sent again meets \<open>CHALLENGE_MISMATCH\<close>.
\<close>

theorem challenge_single_use_witness:
  "snd (finish_call Authentication sample_env
          (sample_request\<lparr>challengeId := Some ''c-auth'', response := Some (assertion 8)\<rparr>)
          sample_db)
     = success (LoginFinish True (Some ''hashed-token'') (Some ''alice@example.com'')) \<and>
   snd (finish_call Authentication sample_env
          (sample_request\<lparr>challengeId := Some ''c-auth'', response := Some (assertion 8)\<rparr>)
          (fst (finish_call Authentication sample_env
                  (sample_request\<lparr>challengeId := Some ''c-auth'',
                     response := Some (assertion 8)\<rparr>)
                  sample_db)))
     = error ''CHALLENGE_MISMATCH'' ''Invalid or expired challenge''"
proof -
  let ?d = "sample_request\<lparr>challengeId := Some ''c-auth'', response := Some (assertion 8)\<rparr>"
  have first: "snd (finish_call Authentication sample_env ?d sample_db)
     = success (LoginFinish True (Some ''hashed-token'') (Some ''alice@example.com''))"
    by (simp add: login_finish_def authentication_verified_def update_counter_def scenario sql
          Let_def)
  have second: "snd (finish_call Authentication sample_env ?d
          (fst (finish_call Authentication sample_env ?d sample_db)))
     = error ''CHALLENGE_MISMATCH'' ''Invalid or expired challenge''"
    using challenge_single_use [of Authentication sample_env ?d sample_db ?d Authentication
        sample_env]
    by blast
  show ?thesis using first second by blast
qed


section \<open>The signature counter\<close>

lemma login_finish_rejected:
  assumes "select_challenge (challengeId d) Authentication db = Some ch"
    and "\<not> ch_expires_at ch < now e"
    and "response d = Some r"
    and "single (filter (\<lambda>c. cr_id c = resp_id r) (passkey_credentials db)) = Some credential"
    and "case verifyAuthenticationResponse e r (ch_challenge ch) (origin e) (rpId d)
                (cr_id credential, cr_public_key credential, cr_counter credential) of
           Threw msg \<Rightarrow> True
         | Returned (verified, newCounter) \<Rightarrow> \<not> verified"
  shows "snd (login_finish e d db) =
           error ''VERIFICATION_FAILED'' ''Authentication verification failed'' \<and>
         passkey_credentials (fst (login_finish e d db)) = passkey_credentials db"
  using assms
  by (auto simp: login_finish_def Let_def authentication_failed_result_def
        log_passkey_audit_event_def split: outcome.splits)

lemma login_finish_credentials_changed:
  assumes "passkey_credentials (fst (login_finish e d db)) \<noteq> passkey_credentials db"
  shows "\<exists>ch r credential newCounter.
           select_challenge (challengeId d) Authentication db = Some ch \<and>
           \<not> ch_expires_at ch < now e \<and>
           response d = Some r \<and>
           single (filter (\<lambda>c. cr_id c = resp_id r) (passkey_credentials db)) = Some credential \<and>
           verifyAuthenticationResponse e r (ch_challenge ch) (origin e) (rpId d)
             (cr_id credential, cr_public_key credential, cr_counter credential)
             = Returned (True, newCounter)"
  using assms
  by (auto simp: login_finish_def Let_def authentication_failed_result_def
        log_passkey_audit_event_def split: outcome.splits option.splits if_splits)

lemma login_finish_accepted:
  assumes "select_challenge (challengeId d) Authentication db = Some ch"
    and "\<not> ch_expires_at ch < now e"
    and "response d = Some r"
    and "single (filter (\<lambda>c. cr_id c = resp_id r) (passkey_credentials db)) = Some credential"
    and "verifyAuthenticationResponse e r (ch_challenge ch) (origin e) (rpId d)
           (cr_id credential, cr_public_key credential, cr_counter credential)
           = Returned (True, newCounter)"
  shows "(\<exists>tokenHash userEmail.
            snd (login_finish e d db) = success (LoginFinish True tokenHash userEmail)) \<and>
         passkey_credentials (fst (login_finish e d db)) =
           map (\<lambda>c. if cr_id c = resp_id r
                    then c\<lparr>cr_counter := newCounter, cr_last_used_at := Some (now e)\<rparr>
                    else c)
             (passkey_credentials db)"
  using assms
  by (simp add: login_finish_def Let_def authentication_verified_def update_counter_def
        log_passkey_audit_event_def)

text \<open>
  C2, as the code has it. The edge function compares no counters: it hands the external
  verifier the stored counter of the credential it looked up and follows the verifier's
  verdict. For a finish-authentication call that reaches the verifier: when the verifier
  throws or does not report success, the call returns \<open>VERIFICATION_FAILED\<close> and leaves
  every stored credential, so its counter and its last-used timestamp, as it was; when
  the verifier reports success, the call succeeds and stores the verifier's new counter
  and the time of the request, whatever the two counters are. And a call that changes a
  stored credential is one in which the verifier reported success for the looked-up
  credential and its stored counter.
\<close>

theorem counter_update_follows_verifier:
  "(select_challenge (challengeId d) Authentication db = Some ch \<and>
    \<not> ch_expires_at ch < now e \<and>
    response d = Some r \<and>
    single (filter (\<lambda>c. cr_id c = resp_id r) (passkey_credentials db)) = Some credential \<and>
    (\<forall>newCounter.
       verifyAuthenticationResponse e r (ch_challenge ch) (origin e) (rpId d)
         (cr_id credential, cr_public_key credential, cr_counter credential)
         \<noteq> Returned (True, newCounter)) \<longrightarrow>
      snd (login_finish e d db) =
        error ''VERIFICATION_FAILED'' ''Authentication verification failed'' \<and>
      passkey_credentials (fst (login_finish e d db)) = passkey_credentials db) \<and>
   (select_challenge (challengeId d) Authentication db = Some ch \<and>
    \<not> ch_expires_at ch < now e \<and>
    response d = Some r \<and>
    single (filter (\<lambda>c. cr_id c = resp_id r) (passkey_credentials db)) = Some credential \<and>
    verifyAuthenticationResponse e r (ch_challenge ch) (origin e) (rpId d)
      (cr_id credential, cr_public_key credential, cr_counter credential)
      = Returned (True, accepted) \<longrightarrow>
      (\<exists>tokenHash userEmail.
         snd (login_finish e d db) = success (LoginFinish True tokenHash userEmail)) \<and>
      passkey_credentials (fst (login_finish e d db)) =
        map (\<lambda>c. if cr_id c = resp_id r
                 then c\<lparr>cr_counter := accepted, cr_last_used_at := Some (now e)\<rparr>
                 else c)
          (passkey_credentials db)) \<and>
   (passkey_credentials (fst (login_finish e d db)) \<noteq> passkey_credentials db \<longrightarrow>
      (\<exists>ch r credential newCounter.
         select_challenge (challengeId d) Authentication db = Some ch \<and>
         \<not> ch_expires_at ch < now e \<and>
         response d = Some r \<and>
         single (filter (\<lambda>c. cr_id c = resp_id r) (passkey_credentials db)) = Some credential \<and>
         verifyAuthenticationResponse e r (ch_challenge ch) (origin e) (rpId d)
           (cr_id credential, cr_public_key credential, cr_counter credential)
           = Returned (True, newCounter)))"
proof (intro conjI impI)
  assume a: "select_challenge (challengeId d) Authentication db = Some ch \<and>
    \<not> ch_expires_at ch < now e \<and>
    response d = Some r \<and>
    single (filter (\<lambda>c. cr_id c = resp_id r) (passkey_credentials db)) = Some credential \<and>
    (\<forall>newCounter.
       verifyAuthenticationResponse e r (ch_challenge ch) (origin e) (rpId d)
         (cr_id credential, cr_public_key credential, cr_counter credential)
         \<noteq> Returned (True, newCounter))"
  then have "case verifyAuthenticationResponse e r (ch_challenge ch) (origin e) (rpId d)
                (cr_id credential, cr_public_key credential, cr_counter credential) of
           Threw msg \<Rightarrow> True
         | Returned (verified, newCounter) \<Rightarrow> \<not> verified"
    by (auto split: outcome.splits)
  with a have r: "snd (login_finish e d db) =
           error ''VERIFICATION_FAILED'' ''Authentication verification failed'' \<and>
         passkey_credentials (fst (login_finish e d db)) = passkey_credentials db"
    by (intro login_finish_rejected) auto
  from r show "snd (login_finish e d db) =
           error ''VERIFICATION_FAILED'' ''Authentication verification failed''"
    by simp
  from r show "passkey_credentials (fst (login_finish e d db)) = passkey_credentials db"
    by simp
next
  assume b: "select_challenge (challengeId d) Authentication db = Some ch \<and>
    \<not> ch_expires_at ch < now e \<and>
    response d = Some r \<and>
    single (filter (\<lambda>c. cr_id c = resp_id r) (passkey_credentials db)) = Some credential \<and>
    verifyAuthenticationResponse e r (ch_challenge ch) (origin e) (rpId d)
      (cr_id credential, cr_public_key credential, cr_counter credential)
      = Returned (True, accepted)"
  then have r: "(\<exists>tokenHash userEmail.
            snd (login_finish e d db) = success (LoginFinish True tokenHash userEmail)) \<and>
         passkey_credentials (fst (login_finish e d db)) =
           map (\<lambda>c. if cr_id c = resp_id r
                    then c\<lparr>cr_counter := accepted, cr_last_used_at := Some (now e)\<rparr>
                    else c)
             (passkey_credentials db)"
    by (intro login_finish_accepted) auto
  from r show "\<exists>tokenHash userEmail.
         snd (login_finish e d db) = success (LoginFinish True tokenHash userEmail)"
    by simp
  from r show "passkey_credentials (fst (login_finish e d db)) =
        map (\<lambda>c. if cr_id c = resp_id r
                 then c\<lparr>cr_counter := accepted, cr_last_used_at := Some (now e)\<rparr>
                 else c)
          (passkey_credentials db)"
    by simp
next
  assume "passkey_credentials (fst (login_finish e d db)) \<noteq> passkey_credentials db"
  then show "\<exists>ch r credential newCounter.
         select_challenge (challengeId d) Authentication db = Some ch \<and>
         \<not> ch_expires_at ch < now e \<and>
         response d = Some r \<and>
         single (filter (\<lambda>c. cr_id c = resp_id r) (passkey_credentials db)) = Some credential \<and>
         verifyAuthenticationResponse e r (ch_challenge ch) (origin e) (rpId d)
           (cr_id credential, cr_public_key credential, cr_counter credential)
           = Returned (True, newCounter)"
    by (rule login_finish_credentials_changed)
qed

text \<open>
  Alice's stored counter is 7 and the sample verifier applies the imported verifier's
  counter rule. An assertion with counter 7 is refused and her credential stays as it
  was; an assertion with counter 8 updates the credential, and the verifier had reported
  success.
\<close>

theorem counter_update_follows_verifier_witness:
  "snd (login_finish sample_env
          (sample_request\<lparr>challengeId := Some ''c-auth'', response := Some (assertion 7)\<rparr>)
          sample_db)
     = error ''VERIFICATION_FAILED'' ''Authentication verification failed'' \<and>
   passkey_credentials
     (fst (login_finish sample_env
             (sample_request\<lparr>challengeId := Some ''c-auth'', response := Some (assertion 7)\<rparr>)
             sample_db))
     = [alice_credential] \<and>
   passkey_credentials
     (fst (login_finish sample_env
             (sample_request\<lparr>challengeId := Some ''c-auth'', response := Some (assertion 8)\<rparr>)
             sample_db))
     = [alice_credential\<lparr>cr_counter := 8, cr_last_used_at := Some 600123\<rparr>] \<and>
   (\<exists>ch r credential newCounter.
      select_challenge (Some ''c-auth'') Authentication sample_db = Some ch \<and>
      r = assertion 8 \<and>
      single (filter (\<lambda>c. cr_id c = resp_id r) (passkey_credentials sample_db))
        = Some credential \<and>
      verifyAuthenticationResponse sample_env r (ch_challenge ch) ''https://app.example''
        ''app.example'' (cr_id credential, cr_public_key credential, cr_counter credential)
        = Returned (True, newCounter))"
proof -
  let ?d7 = "sample_request\<lparr>challengeId := Some ''c-auth'', response := Some (assertion 7)\<rparr>"
  let ?d8 = "sample_request\<lparr>challengeId := Some ''c-auth'', response := Some (assertion 8)\<rparr>"
  have sel: "select_challenge (challengeId ?d7) Authentication sample_db = Some live_authentication"
    "select_challenge (challengeId ?d8) Authentication sample_db = Some live_authentication"
    by (simp_all add: scenario sql)
  have live: "\<not> ch_expires_at live_authentication < now sample_env"
    by (simp add: scenario)
  have resp: "response ?d7 = Some (assertion 7)" "response ?d8 = Some (assertion 8)"
    by (simp_all add: scenario)
  have cred: "single (filter (\<lambda>c. cr_id c = resp_id (assertion 7)) (passkey_credentials sample_db))
                = Some alice_credential"
    "single (filter (\<lambda>c. cr_id c = resp_id (assertion 8)) (passkey_credentials sample_db))
                = Some alice_credential"
    by (simp_all add: scenario sql)
  have refused: "\<forall>newCounter.
       verifyAuthenticationResponse sample_env (assertion 7) (ch_challenge live_authentication)
         (origin sample_env) (rpId ?d7)
         (cr_id alice_credential, cr_public_key alice_credential, cr_counter alice_credential)
         \<noteq> Returned (True, newCounter)"
    by (simp add: scenario)
  have verified: "verifyAuthenticationResponse sample_env (assertion 8)
         (ch_challenge live_authentication) (origin sample_env) (rpId ?d8)
         (cr_id alice_credential, cr_public_key alice_credential, cr_counter alice_credential)
         = Returned (True, 8)"
    by (simp add: scenario)
  have db: "passkey_credentials sample_db = [alice_credential]"
    by (simp add: sample_db_def)
  have rejected: "snd (login_finish sample_env ?d7 sample_db) =
        error ''VERIFICATION_FAILED'' ''Authentication verification failed'' \<and>
      passkey_credentials (fst (login_finish sample_env ?d7 sample_db)) = [alice_credential]"
    using counter_update_follows_verifier [of ?d7 sample_db live_authentication sample_env
        "assertion 7" alice_credential, THEN conjunct1] sel(1) live resp(1) cred(1) refused db
    by simp
  have "passkey_credentials (fst (login_finish sample_env ?d8 sample_db)) =
        map (\<lambda>c. if cr_id c = resp_id (assertion 8)
                 then c\<lparr>cr_counter := 8, cr_last_used_at := Some (now sample_env)\<rparr>
                 else c)
          (passkey_credentials sample_db)"
    using counter_update_follows_verifier [of ?d8 sample_db live_authentication sample_env
        "assertion 8" alice_credential 8, THEN conjunct2, THEN conjunct1] sel(2) live resp(2)
      cred(2) verified
    by simp
  then have updated: "passkey_credentials (fst (login_finish sample_env ?d8 sample_db))
      = [alice_credential\<lparr>cr_counter := 8, cr_last_used_at := Some 600123\<rparr>]"
    by (simp add: scenario)
  have "alice_credential\<lparr>cr_counter := 8, cr_last_used_at := Some 600123\<rparr> \<noteq> alice_credential"
    by (simp add: alice_credential_def)
  then have changed: "passkey_credentials (fst (login_finish sample_env ?d8 sample_db))
      \<noteq> passkey_credentials sample_db"
    by (simp add: updated db)
  have fields: "challengeId ?d8 = Some ''c-auth''" "response ?d8 = Some (assertion 8)"
    "origin sample_env = ''https://app.example''" "rpId ?d8 = ''app.example''"
    by (simp_all add: scenario)
  have accepted: "\<exists>ch r credential newCounter.
      select_challenge (Some ''c-auth'') Authentication sample_db = Some ch \<and>
      r = assertion 8 \<and>
      single (filter (\<lambda>c. cr_id c = resp_id r) (passkey_credentials sample_db))
        = Some credential \<and>
      verifyAuthenticationResponse sample_env r (ch_challenge ch) ''https://app.example''
        ''app.example'' (cr_id credential, cr_public_key credential, cr_counter credential)
        = Returned (True, newCounter)"
    using counter_update_follows_verifier [of ?d8 sample_db _ sample_env, THEN conjunct2,
        THEN conjunct2, THEN mp, OF changed]
    unfolding fields by blast
  show ?thesis using rejected updated accepted by blast
qed

text \<open>
  C2 as stated fails. A passkey that keeps no signature counter reports 0 and is stored
  with counter 0. An assertion with counter 0, which is not greater than the stored 0,
  passes the imported verifier's counter rule: the call succeeds and writes the
  credential's last-used timestamp.
\<close>

theorem stale_counter_counterexample:
  "resp_signCount (assertion 0) \<le> cr_counter (alice_credential\<lparr>cr_counter := 0\<rparr>) \<and>
   snd (login_finish sample_env
          (sample_request\<lparr>challengeId := Some ''c-auth'', response := Some (assertion 0)\<rparr>)
          (sample_db\<lparr>passkey_credentials := [alice_credential\<lparr>cr_counter := 0\<rparr>]\<rparr>))
     = success (LoginFinish True (Some ''hashed-token'') (Some ''alice@example.com'')) \<and>
   passkey_credentials
     (fst (login_finish sample_env
             (sample_request\<lparr>challengeId := Some ''c-auth'', response := Some (assertion 0)\<rparr>)
             (sample_db\<lparr>passkey_credentials := [alice_credential\<lparr>cr_counter := 0\<rparr>]\<rparr>)))
     = [alice_credential\<lparr>cr_counter := 0, cr_last_used_at := Some 600123\<rparr>]"
  by (simp add: login_finish_def authentication_verified_def update_counter_def scenario sql
        Let_def)

section \<open>Expired challenges\<close>

lemma login_finish_expired:
  assumes "select_challenge (challengeId d) Authentication db = Some ch"
    and "ch_expires_at ch < now e"
  shows "login_finish e d db =
     (delete_challenge (challengeId d) db, error ''CHALLENGE_EXPIRED'' ''Challenge has expired'')"
  using assms by (simp add: login_finish_def Let_def)

lemma register_finish_expired:
  assumes "select_challenge (challengeId d) Registration db = Some ch"
    and "ch_expires_at ch < now e"
  shows "register_finish e d db =
     (log_passkey_audit_event ((audit e challenge_expired)\<lparr>p_email := ch_email ch\<rparr>)
        (delete_challenge (challengeId d) db),
      error ''CHALLENGE_EXPIRED'' ''Challenge has expired'')"
  using assms by (simp add: register_finish_def Let_def)

text \<open>
  C3 at an expired authentication challenge and at an expired registration challenge of
  the same store. Both calls return \<open>CHALLENGE_EXPIRED\<close>. \<open>/register/finish\<close>
  writes one \<open>challenge_expired\<close> audit event; \<open>/login/finish\<close> writes none.
\<close>

theorem login_finish_expired_unlogged:
  "snd (login_finish sample_env (sample_request\<lparr>challengeId := Some ''c-auth-old''\<rparr>) sample_db)
     = error ''CHALLENGE_EXPIRED'' ''Challenge has expired'' \<and>
   passkey_audit_log
     (fst (login_finish sample_env (sample_request\<lparr>challengeId := Some ''c-auth-old''\<rparr>)
             sample_db))
     = [] \<and>
   snd (register_finish sample_env (sample_request\<lparr>challengeId := Some ''c-reg-old''\<rparr>)
          sample_db)
     = error ''CHALLENGE_EXPIRED'' ''Challenge has expired'' \<and>
   map event_type
     (passkey_audit_log
        (fst (register_finish sample_env (sample_request\<lparr>challengeId := Some ''c-reg-old''\<rparr>)
                sample_db)))
     = [challenge_expired]"
  by (simp add: login_finish_def register_finish_def scenario sql Let_def)


section \<open>A challenge finished against the wrong endpoint\<close>

lemma select_challenge_wrong_kind:
  assumes "filter (\<lambda>x. ch_id x = ch_id c) (passkey_challenges db) = [c]"
    and "k \<noteq> ch_type c"
  shows "select_challenge (Some (ch_id c)) k db = None"
proof -
  have "filter (\<lambda>x. Some (ch_id x) = Some (ch_id c) \<and> ch_type x = k) (passkey_challenges db)
        = filter (\<lambda>x. ch_type x = k) (filter (\<lambda>x. ch_id x = ch_id c) (passkey_challenges db))"
    by (simp only: filter_filter option.inject)
  also have "\<dots> = []" using assms by simp
  finally show ?thesis by (simp add: select_challenge_def single_def)
qed

lemma select_challenge_right_kind:
  assumes "filter (\<lambda>x. ch_id x = ch_id c) (passkey_challenges db) = [c]"
  shows "select_challenge (Some (ch_id c)) (ch_type c) db = Some c"
proof -
  have "filter (\<lambda>x. Some (ch_id x) = Some (ch_id c) \<and> ch_type x = ch_type c) (passkey_challenges db)
        = filter (\<lambda>x. ch_type x = ch_type c) (filter (\<lambda>x. ch_id x = ch_id c) (passkey_challenges db))"
    by (simp only: filter_filter option.inject)
  also have "\<dots> = [c]" using assms by simp
  finally show ?thesis by (simp add: select_challenge_def single_def)
qed


lemma finish_call_found:
  assumes "select_challenge (challengeId d) k db = Some ch"
  shows "snd (finish_call k e d db) \<noteq> error ''CHALLENGE_MISMATCH'' ''Invalid or expired challenge''"
  using assms
  by (cases k)
     (auto simp: register_finish_def login_finish_def Let_def registration_failed_result_def
        registration_verified_def authentication_failed_result_def authentication_verified_def
        case_prod_beta split: option.splits outcome.splits)

text \<open>
  C9. Let the store hold exactly one challenge \<open>c\<close> under its identity (the primary
  key), and let a finish call of the other kind name that identity. The call returns
  \<open>CHALLENGE_MISMATCH\<close> and still removes the challenge, since the delete is keyed
  by the identity alone. The endpoint of \<open>c\<close>'s own kind, which would have found the
  challenge in the store as it was, now answers \<open>CHALLENGE_MISMATCH\<close> too.
\<close>

theorem wrong_kind_consumes_challenge:
  assumes "filter (\<lambda>x. ch_id x = ch_id c) (passkey_challenges db) = [c]"
    and "challengeId d = Some (ch_id c)"
    and "k \<noteq> ch_type c"
    and "challengeId d' = Some (ch_id c)"
  shows "snd (finish_call (ch_type c) e' d' db)
           \<noteq> error ''CHALLENGE_MISMATCH'' ''Invalid or expired challenge'' \<and>
         snd (finish_call k e d db) = error ''CHALLENGE_MISMATCH'' ''Invalid or expired challenge'' \<and>
         (\<forall>x \<in> set (passkey_challenges (fst (finish_call k e d db))). ch_id x \<noteq> ch_id c) \<and>
         snd (finish_call (ch_type c) e' d' (fst (finish_call k e d db)))
           = error ''CHALLENGE_MISMATCH'' ''Invalid or expired challenge''"
proof (intro conjI)
  show "snd (finish_call (ch_type c) e' d' db)
          \<noteq> error ''CHALLENGE_MISMATCH'' ''Invalid or expired challenge''"
    using select_challenge_right_kind [OF assms(1)] assms(4) by (intro finish_call_found) simp
  show "snd (finish_call k e d db) = error ''CHALLENGE_MISMATCH'' ''Invalid or expired challenge''"
    using select_challenge_wrong_kind [OF assms(1,3)] assms(2) by (intro finish_call_absent) simp
  show gone: "\<forall>x \<in> set (passkey_challenges (fst (finish_call k e d db))). ch_id x \<noteq> ch_id c"
    using assms(2) by (simp add: finish_call_challenges)
  then have "select_challenge (challengeId d') (ch_type c) (fst (finish_call k e d db)) = None"
    using assms(4) by (intro select_challenge_absent) simp
  then show "snd (finish_call (ch_type c) e' d' (fst (finish_call k e d db)))
          = error ''CHALLENGE_MISMATCH'' ''Invalid or expired challenge''"
    by (rule finish_call_absent)
qed

text \<open>
  Alice's live authentication challenge: finished by \<open>/login/finish\<close> it signs her in;
  sent to \<open>/register/finish\<close> first, it is refused there and is then gone for
  \<open>/login/finish\<close>.
\<close>

theorem wrong_kind_consumes_challenge_witness:
  "snd (finish_call Authentication sample_env
          (sample_request\<lparr>challengeId := Some ''c-auth'', response := Some (assertion 8)\<rparr>)
          sample_db)
     = success (LoginFinish True (Some ''hashed-token'') (Some ''alice@example.com'')) \<and>
   snd (finish_call Registration sample_env (sample_request\<lparr>challengeId := Some ''c-auth''\<rparr>)
          sample_db)
     = error ''CHALLENGE_MISMATCH'' ''Invalid or expired challenge'' \<and>
   snd (finish_call Authentication sample_env
          (sample_request\<lparr>challengeId := Some ''c-auth'', response := Some (assertion 8)\<rparr>)
          (fst (finish_call Registration sample_env
                  (sample_request\<lparr>challengeId := Some ''c-auth''\<rparr>) sample_db)))
     = error ''CHALLENGE_MISMATCH'' ''Invalid or expired challenge''"
proof -
  let ?d = "sample_request\<lparr>challengeId := Some ''c-auth''\<rparr>"
  let ?d' = "sample_request\<lparr>challengeId := Some ''c-auth'', response := Some (assertion 8)\<rparr>"
  have row: "filter (\<lambda>x. ch_id x = ch_id live_authentication) (passkey_challenges sample_db)
               = [live_authentication]"
    by (simp add: scenario)
  have d: "challengeId ?d = Some (ch_id live_authentication)"
    by (simp add: scenario)
  have k: "Registration \<noteq> ch_type live_authentication"
    by (simp add: scenario)
  have d': "challengeId ?d' = Some (ch_id live_authentication)"
    by (simp add: scenario)
  have ty: "ch_type live_authentication = Authentication"
    by (simp add: scenario)
  have before: "snd (finish_call Authentication sample_env ?d' sample_db)
     = success (LoginFinish True (Some ''hashed-token'') (Some ''alice@example.com''))"
    by (simp add: login_finish_def authentication_verified_def update_counter_def scenario sql
          Let_def)
  note t = wrong_kind_consumes_challenge [OF row d k d', of sample_env sample_env, unfolded ty]
  show ?thesis using before t by blast
qed

section \<open>Rate limiting at the entry points\<close>

lemma ipBlocked_fields [simp]:
  "passkey_challenges (fst (ipBlocked e ep db)) = passkey_challenges db"
  "passkey_credentials (fst (ipBlocked e ep db)) = passkey_credentials db"
  "passkey_audit_log (fst (ipBlocked e ep db)) = passkey_audit_log db"
  "auth_users (fst (ipBlocked e ep db)) = auth_users db"
  by (simp_all add: ipBlocked_def split: sum.splits prod.splits)

lemma ipBlocked_iff:
  assumes "length ep \<le> 50"
  shows "snd (ipBlocked e ep db) \<longleftrightarrow>
     RATE_LIMITS_ip_maxAttempts
       \<le> attempt_count (passkey_rate_limits db) (clientIP e, ''ip'', ep, date_trunc_minute (now e))"
  using assms
  by (simp add: ipBlocked_def check_passkey_rate_limit_step Let_def INTEGER_MAX_def
        RATE_LIMITS_ip_maxAttempts_def)

lemma rate_limits_insert_challenge [simp]:
  "passkey_rate_limits (fst (insert_challenge row db)) = passkey_rate_limits db"
  by (simp add: insert_challenge_def)

lemma rate_limits_log [simp]:
  "passkey_rate_limits (log_passkey_audit_event row db) = passkey_rate_limits db"
  by (simp add: log_passkey_audit_event_def)

lemma register_start_limited:
  "passkey_rate_limits (fst (register_start e d db))
     = passkey_rate_limits (fst (ipBlocked e ''/register/start'' db)) \<and>
   (snd (ipBlocked e ''/register/start'' db) \<longrightarrow>
      register_start e d db
        = (fst (ipBlocked e ''/register/start'' db), error ''RATE_LIMITED'' ''Too many requests'')) \<and>
   (\<not> snd (ipBlocked e ''/register/start'' db) \<longrightarrow>
      snd (register_start e d db) \<noteq> error ''RATE_LIMITED'' ''Too many requests'')"
  by (simp add: register_start_def Let_def case_prod_beta split: option.splits)

lemma login_start_limited:
  "passkey_rate_limits (fst (login_start e d db))
     = passkey_rate_limits (fst (ipBlocked e ''/login/start'' db)) \<and>
   (snd (ipBlocked e ''/login/start'' db) \<longrightarrow>
      login_start e d db
        = (fst (ipBlocked e ''/login/start'' db), error ''RATE_LIMITED'' ''Too many requests'')) \<and>
   (\<not> snd (ipBlocked e ''/login/start'' db) \<longrightarrow>
      snd (login_start e d db) \<noteq> error ''RATE_LIMITED'' ''Too many requests'')"
  by (simp add: login_start_def Let_def case_prod_beta split: option.splits)

lemma start_call_limited:
  "passkey_rate_limits (fst (start_call k e d db))
     = passkey_rate_limits (fst (ipBlocked e (start_endpoint k) db)) \<and>
   (snd (ipBlocked e (start_endpoint k) db) \<longrightarrow>
      start_call k e d db
        = (fst (ipBlocked e (start_endpoint k) db), error ''RATE_LIMITED'' ''Too many requests'')) \<and>
   (\<not> snd (ipBlocked e (start_endpoint k) db) \<longrightarrow>
      snd (start_call k e d db) \<noteq> error ''RATE_LIMITED'' ''Too many requests'')"
  using register_start_limited [of e d db] login_start_limited [of e d db]
  by (cases k) simp_all

lemma rate_limits_delete [simp]:
  "passkey_rate_limits (delete_challenge cid db) = passkey_rate_limits db"
  by (simp add: delete_challenge_def)

lemma register_finish_rate_limits:
  "passkey_rate_limits (fst (register_finish e d db)) = passkey_rate_limits db"
  by (simp add: register_finish_def Let_def case_prod_beta registration_failed_result_def
        registration_verified_def insert_credential_def
        split: option.splits outcome.splits)

lemma login_finish_rate_limits:
  "passkey_rate_limits (fst (login_finish e d db)) = passkey_rate_limits db"
  by (simp add: login_finish_def Let_def case_prod_beta authentication_failed_result_def
        authentication_verified_def update_counter_def
        split: option.splits outcome.splits)

lemma ipBlocked_counts:
  assumes "length ep \<le> 50"
    and "attempt_count (passkey_rate_limits db) (clientIP e, ''ip'', ep, date_trunc_minute (now e))
           < INTEGER_MAX"
  shows "passkey_rate_limits (fst (ipBlocked e ep db))
           (clientIP e, ''ip'', ep, date_trunc_minute (now e))
         = Some (attempt_count (passkey_rate_limits db)
                   (clientIP e, ''ip'', ep, date_trunc_minute (now e)) + 1)"
  using assms
  by (simp add: ipBlocked_def check_passkey_rate_limit_step Let_def)

text \<open>
  C4, as the code has it by design. Each of the two start endpoints evaluates the
  IP-scoped limiter before anything else: the attempt is counted in the current window
  of the client address and the endpoint, and when that window already holds
  \<open>RATE_LIMITS.ip.maxAttempts\<close> attempts the request is answered \<open>RATE_LIMITED\<close> with
  no challenge created and no credential or account touched. The finish endpoints and the
  two modelled passkey-management endpoints evaluate no limiter: they leave the
  rate-limit table as it was.
\<close>

theorem ip_rate_limit_on_start:
  "(attempt_count (passkey_rate_limits db)
      (clientIP e, ''ip'', start_endpoint k, date_trunc_minute (now e)) < INTEGER_MAX \<longrightarrow>
      passkey_rate_limits (fst (start_call k e d db))
        (clientIP e, ''ip'', start_endpoint k, date_trunc_minute (now e))
      = Some (attempt_count (passkey_rate_limits db)
                (clientIP e, ''ip'', start_endpoint k, date_trunc_minute (now e)) + 1)) \<and>
   (RATE_LIMITS_ip_maxAttempts
      \<le> attempt_count (passkey_rate_limits db)
           (clientIP e, ''ip'', start_endpoint k, date_trunc_minute (now e)) \<longrightarrow>
      snd (start_call k e d db) = error ''RATE_LIMITED'' ''Too many requests'' \<and>
      passkey_challenges (fst (start_call k e d db)) = passkey_challenges db \<and>
      passkey_credentials (fst (start_call k e d db)) = passkey_credentials db \<and>
      auth_users (fst (start_call k e d db)) = auth_users db) \<and>
   passkey_rate_limits (fst (finish_call k e d db)) = passkey_rate_limits db \<and>
   passkey_rate_limits (fst (passkeys_remove e d db)) = passkey_rate_limits db \<and>
   passkey_rate_limits (fst (passkeys_update e d db)) = passkey_rate_limits db"
proof (intro conjI impI)
  have len: "length (start_endpoint k) \<le> 50"
    by (cases k) simp_all
  have tbl: "passkey_rate_limits (fst (start_call k e d db))
     = passkey_rate_limits (fst (ipBlocked e (start_endpoint k) db))"
    using start_call_limited [of k e d db] by blast
  {
    assume "attempt_count (passkey_rate_limits db)
      (clientIP e, ''ip'', start_endpoint k, date_trunc_minute (now e)) < INTEGER_MAX"
    then show "passkey_rate_limits (fst (start_call k e d db))
        (clientIP e, ''ip'', start_endpoint k, date_trunc_minute (now e))
      = Some (attempt_count (passkey_rate_limits db)
                (clientIP e, ''ip'', start_endpoint k, date_trunc_minute (now e)) + 1)"
      unfolding tbl by (rule ipBlocked_counts [OF len])
  }
  show "passkey_rate_limits (fst (finish_call k e d db)) = passkey_rate_limits db"
    by (cases k) (simp_all add: register_finish_rate_limits login_finish_rate_limits)
  show "passkey_rate_limits (fst (passkeys_remove e d db)) = passkey_rate_limits db"
    by (simp add: passkeys_remove_def Let_def split: option.splits)
  show "passkey_rate_limits (fst (passkeys_update e d db)) = passkey_rate_limits db"
    by (simp add: passkeys_update_def Let_def split: option.splits)
  assume "RATE_LIMITS_ip_maxAttempts
      \<le> attempt_count (passkey_rate_limits db)
           (clientIP e, ''ip'', start_endpoint k, date_trunc_minute (now e))"
  then have "snd (ipBlocked e (start_endpoint k) db)"
    using ipBlocked_iff [OF len] by blast
  then have r: "start_call k e d db
      = (fst (ipBlocked e (start_endpoint k) db), error ''RATE_LIMITED'' ''Too many requests'')"
    using start_call_limited [of k e d db] by blast
  show "snd (start_call k e d db) = error ''RATE_LIMITED'' ''Too many requests''"
    by (simp add: r)
  show "passkey_challenges (fst (start_call k e d db)) = passkey_challenges db"
    by (simp add: r)
  show "passkey_credentials (fst (start_call k e d db)) = passkey_credentials db"
    by (simp add: r)
  show "auth_users (fst (start_call k e d db)) = auth_users db"
    by (simp add: r)
qed

text \<open>
  \<open>/register/start\<close> from an address with five attempts in the window is answered
  \<open>RATE_LIMITED\<close>, leaves the challenges alone and counts a sixth attempt; with four
  attempts it counts the fifth and goes on to create the challenge.
\<close>

theorem ip_rate_limit_on_start_witness:
  "snd (start_call Registration sample_env (sample_request\<lparr>email := Some ''carol@example.com''\<rparr>)
          (sample_db\<lparr>passkey_rate_limits := attempts_made ''/register/start'' 5\<rparr>))
     = error ''RATE_LIMITED'' ''Too many requests'' \<and>
   passkey_challenges
     (fst (start_call Registration sample_env
             (sample_request\<lparr>email := Some ''carol@example.com''\<rparr>)
             (sample_db\<lparr>passkey_rate_limits := attempts_made ''/register/start'' 5\<rparr>)))
     = passkey_challenges sample_db \<and>
   passkey_rate_limits
     (fst (start_call Registration sample_env
             (sample_request\<lparr>email := Some ''carol@example.com''\<rparr>)
             (sample_db\<lparr>passkey_rate_limits := attempts_made ''/register/start'' 5\<rparr>)))
     (''203.0.113.7'', ''ip'', ''/register/start'', 600000) = Some 6 \<and>
   passkey_rate_limits
     (fst (start_call Registration sample_env
             (sample_request\<lparr>email := Some ''carol@example.com''\<rparr>)
             (sample_db\<lparr>passkey_rate_limits := attempts_made ''/register/start'' 4\<rparr>)))
     (''203.0.113.7'', ''ip'', ''/register/start'', 600000) = Some 5 \<and>
   snd (start_call Registration sample_env (sample_request\<lparr>email := Some ''carol@example.com''\<rparr>)
          (sample_db\<lparr>passkey_rate_limits := attempts_made ''/register/start'' 4\<rparr>))
     = success (RegisterStart
         \<lparr>ro_rpName = ''App'', ro_rpID = ''app.example'', ro_userName = Some ''carol@example.com'',
          ro_userID = ''w-new'', ro_challenge = ''nonce-9'', ro_excludeCredentials = []\<rparr>
         ''c-new'')"
proof -
  let ?d = "sample_request\<lparr>email := Some ''carol@example.com''\<rparr>"
  let ?db5 = "sample_db\<lparr>passkey_rate_limits := attempts_made ''/register/start'' 5\<rparr>"
  let ?db4 = "sample_db\<lparr>passkey_rate_limits := attempts_made ''/register/start'' 4\<rparr>"
  have key: "(clientIP sample_env, ''ip'', start_endpoint Registration,
              date_trunc_minute (now sample_env))
             = (''203.0.113.7'', ''ip'', ''/register/start'', 600000)"
    by (simp add: scenario date_trunc_minute_def)
  have five: "attempt_count (passkey_rate_limits ?db5)
                (''203.0.113.7'', ''ip'', ''/register/start'', 600000) = 5"
    and four: "attempt_count (passkey_rate_limits ?db4)
                (''203.0.113.7'', ''ip'', ''/register/start'', 600000) = 4"
    by (simp_all add: scenario attempt_count_def)
  have same: "passkey_challenges ?db5 = passkey_challenges sample_db"
    by (simp add: sample_db_def)
  note t5 = ip_rate_limit_on_start [of ?db5 sample_env Registration ?d, unfolded key five]
  note t4 = ip_rate_limit_on_start [of ?db4 sample_env Registration ?d, unfolded key four]
  have blocked: "snd (start_call Registration sample_env ?d ?db5)
       = error ''RATE_LIMITED'' ''Too many requests'' \<and>
     passkey_challenges (fst (start_call Registration sample_env ?d ?db5))
       = passkey_challenges sample_db"
    using t5 [THEN conjunct2, THEN conjunct1] same
    by (simp add: RATE_LIMITS_ip_maxAttempts_def)
  have sixth: "passkey_rate_limits (fst (start_call Registration sample_env ?d ?db5))
     (''203.0.113.7'', ''ip'', ''/register/start'', 600000) = Some 6"
    using t5 [THEN conjunct1] by (simp add: INTEGER_MAX_def)
  have fifth: "passkey_rate_limits (fst (start_call Registration sample_env ?d ?db4))
     (''203.0.113.7'', ''ip'', ''/register/start'', 600000) = Some 5"
    using t4 [THEN conjunct1] by (simp add: INTEGER_MAX_def)
  have goes_on: "snd (start_call Registration sample_env ?d ?db4)
     = success (RegisterStart
         \<lparr>ro_rpName = ''App'', ro_rpID = ''app.example'', ro_userName = Some ''carol@example.com'',
          ro_userID = ''w-new'', ro_challenge = ''nonce-9'', ro_excludeCredentials = []\<rparr>
         ''c-new'')"
    by (simp add: register_start_def scenario sql Let_def)
  show ?thesis
    using blocked sixth fifth goes_on by (intro conjI) simp_all
qed

text \<open>
  C4 as stated fails. \<open>/register/finish\<close> from an address that stands at 100 attempts
  on that endpoint goes on to verification and does not touch the counter. And
  \<open>/register/start\<close> for an email that stands at 50 attempts succeeds and does not
  touch the email's counter: no email-scoped limiter is evaluated.
\<close>

theorem rate_limit_counterexample:
  "snd (register_finish sample_env (sample_request\<lparr>challengeId := Some ''c-reg''\<rparr>)
          (sample_db\<lparr>passkey_rate_limits := attempts_made ''/register/finish'' 100\<rparr>))
     = error ''VERIFICATION_FAILED'' ''Registration verification failed'' \<and>
   passkey_rate_limits
     (fst (register_finish sample_env (sample_request\<lparr>challengeId := Some ''c-reg''\<rparr>)
             (sample_db\<lparr>passkey_rate_limits := attempts_made ''/register/finish'' 100\<rparr>)))
     (''203.0.113.7'', ''ip'', ''/register/finish'', 600000) = Some 100 \<and>
   snd (register_start sample_env (sample_request\<lparr>email := Some ''carol@example.com''\<rparr>)
          (sample_db\<lparr>passkey_rate_limits :=
             [(''carol@example.com'', ''email'', ''/register/start'', 600000) \<mapsto> 50]\<rparr>))
     = success (RegisterStart
         \<lparr>ro_rpName = ''App'', ro_rpID = ''app.example'', ro_userName = Some ''carol@example.com'',
          ro_userID = ''w-new'', ro_challenge = ''nonce-9'', ro_excludeCredentials = []\<rparr>
         ''c-new'') \<and>
   passkey_rate_limits
     (fst (register_start sample_env (sample_request\<lparr>email := Some ''carol@example.com''\<rparr>)
          (sample_db\<lparr>passkey_rate_limits :=
             [(''carol@example.com'', ''email'', ''/register/start'', 600000) \<mapsto> 50]\<rparr>)))
     (''carol@example.com'', ''email'', ''/register/start'', 600000) = Some 50"
  by (simp add: register_finish_def register_start_def registration_failed_result_def scenario
        sql Let_def)

section \<open>Credential management and the start endpoints\<close>

lemma passkeys_remove_authenticated:
  assumes "session_user e = Some uid"
  shows "snd (passkeys_remove e d db) = success (PasskeyRemoved True)"
  using assms by (simp add: passkeys_remove_def Let_def)

lemma passkeys_remove_not_owner:
  assumes "session_user e = Some uid"
    and "\<forall>c \<in> set (passkey_credentials db). Some (cr_id c) = credentialId d \<longrightarrow> cr_user_id c \<noteq> uid"
  shows "passkey_credentials (fst (passkeys_remove e d db)) = passkey_credentials db"
proof -
  have "filter (\<lambda>c. \<not> (Some (cr_id c) = credentialId d \<and> cr_user_id c = uid))
          (passkey_credentials db) = passkey_credentials db"
    using assms(2) by (simp add: filter_id_conv)
  then show ?thesis
    using assms(1) by (simp add: passkeys_remove_def Let_def log_passkey_audit_event_def)
qed

lemma passkeys_update_not_owner:
  assumes "session_user e = Some uid"
    and "\<forall>c \<in> set (passkey_credentials db). Some (cr_id c) = credentialId d \<longrightarrow> cr_user_id c \<noteq> uid"
  shows "passkeys_update e d db = (db, error ''CREDENTIAL_NOT_FOUND'' ''Passkey not found'')"
proof -
  have "filter (\<lambda>c. Some (cr_id c) = credentialId d \<and> cr_user_id c = uid)
          (passkey_credentials db) = []"
    using assms(2) by (auto simp: filter_empty_conv)
  then show ?thesis
    using assms(1) by (simp add: passkeys_update_def Let_def single_def)
qed

text \<open>
  C6 at a request by Bob that names Alice's passkey. \<open>/passkeys/update\<close> changes
  nothing and reports \<open>CREDENTIAL_NOT_FOUND\<close>. \<open>/passkeys/remove\<close> leaves the
  passkey in place, yet reports success and logs a \<open>passkey_removed\<close> event.
\<close>

theorem cross_account_remove_reports_success:
  "map cr_user_id (filter (\<lambda>c. cr_id c = ''cred-a'') (passkey_credentials sample_db)) = [''user-a''] \<and>
   snd (passkeys_remove (sample_env\<lparr>session_user := Some ''user-b''\<rparr>)
          (sample_request\<lparr>credentialId := Some ''cred-a''\<rparr>) sample_db)
     = success (PasskeyRemoved True) \<and>
   passkey_credentials
     (fst (passkeys_remove (sample_env\<lparr>session_user := Some ''user-b''\<rparr>)
             (sample_request\<lparr>credentialId := Some ''cred-a''\<rparr>) sample_db))
     = [alice_credential] \<and>
   map event_type
     (passkey_audit_log
        (fst (passkeys_remove (sample_env\<lparr>session_user := Some ''user-b''\<rparr>)
                (sample_request\<lparr>credentialId := Some ''cred-a''\<rparr>) sample_db)))
     = [passkey_removed] \<and>
   passkeys_update (sample_env\<lparr>session_user := Some ''user-b''\<rparr>)
     (sample_request\<lparr>credentialId := Some ''cred-a'', authenticatorName := Some ''Mine''\<rparr>)
     sample_db
     = (sample_db, error ''CREDENTIAL_NOT_FOUND'' ''Passkey not found'')"
  by (simp add: passkeys_remove_def passkeys_update_def scenario sql Let_def)

lemma register_start_excludeCredentials:
  assumes "snd (register_start e d db) = success (RegisterStart opts cid)"
  shows "ro_excludeCredentials opts =
     map cr_id (take 1 (filter (\<lambda>c. cr_webauthn_user_id c = generateWebAuthnUserId e)
                          (passkey_credentials db)))"
  using assms
  by (auto simp: register_start_def Let_def case_prod_beta split: if_splits option.splits)

text \<open>
  C7 at a begin-registration for Alice's email. Alice has an account with one passkey,
  but the exclusion list is selected by the user handle that the same request has just
  drawn at random, so it is empty.
\<close>

theorem register_start_excludes_nothing:
  "map cr_id (filter (\<lambda>c. cr_user_id c = u_id alice) (passkey_credentials sample_db)) = [''cred-a''] \<and>
   find (\<lambda>u. u_email u = Some ''alice@example.com'') (auth_users sample_db) = Some alice \<and>
   snd (register_start sample_env (sample_request\<lparr>email := Some ''alice@example.com''\<rparr>)
          sample_db)
     = success (RegisterStart
         \<lparr>ro_rpName = ''App'', ro_rpID = ''app.example'', ro_userName = Some ''alice@example.com'',
          ro_userID = ''w-new'', ro_challenge = ''nonce-9'', ro_excludeCredentials = []\<rparr>
         ''c-new'')"
  by (simp add: register_start_def scenario sql Let_def)

lemma login_start_lookup_fails:
  assumes "truthy (email d)"
    and "case find (\<lambda>u. u_email u = email d) (auth_users db) of
           None \<Rightarrow> True
         | Some user \<Rightarrow> filter (\<lambda>c. cr_user_id c = u_id user) (passkey_credentials db) = []"
  shows "login_start e d db =
     (fst (ipBlocked e ''/login/start'' db),
      if snd (ipBlocked e ''/login/start'' db) then error ''RATE_LIMITED'' ''Too many requests''
      else error ''CREDENTIAL_NOT_FOUND'' ''No passkey found for this email'')"
proof (cases "find (\<lambda>u. u_email u = email d) (auth_users db)")
  case None
  then show ?thesis
    using assms(1) by (simp add: login_start_def Let_def case_prod_beta)
next
  case (Some user)
  with assms(2) have "filter (\<lambda>c. cr_user_id c = u_id user) (passkey_credentials db) = []"
    by simp
  then show ?thesis
    using assms(1) Some by (simp add: login_start_def Let_def case_prod_beta)
qed

text \<open>
  C8. A begin-authentication call that the IP rate limiter lets through, with a non-empty
  email that resolves to no account, or to an account without stored credentials,
  returns \<open>CREDENTIAL_NOT_FOUND\<close> before any challenge is created: the challenge table
  and the audit log are as they were.
\<close>

theorem login_start_without_credentials:
  assumes "truthy (email d)"
    and "case find (\<lambda>u. u_email u = email d) (auth_users db) of
           None \<Rightarrow> True
         | Some user \<Rightarrow> filter (\<lambda>c. cr_user_id c = u_id user) (passkey_credentials db) = []"
    and "attempt_count (passkey_rate_limits db)
           (clientIP e, ''ip'', ''/login/start'', date_trunc_minute (now e))
         < RATE_LIMITS_ip_maxAttempts"
  shows "snd (login_start e d db) =
           error ''CREDENTIAL_NOT_FOUND'' ''No passkey found for this email'' \<and>
         passkey_challenges (fst (login_start e d db)) = passkey_challenges db \<and>
         passkey_audit_log (fst (login_start e d db)) = passkey_audit_log db"
proof -
  have "\<not> snd (ipBlocked e ''/login/start'' db)"
    using assms(3) ipBlocked_iff [of "''/login/start''" e db] by simp
  then show ?thesis
    by (simp add: login_start_lookup_fails [OF assms(1,2)])
qed

text \<open>
  Bob has an account and no passkey; Carol has no account. Neither request is rate
  limited.
\<close>

theorem login_start_without_credentials_witness:
  "snd (login_start sample_env (sample_request\<lparr>email := Some ''bob@example.com''\<rparr>) sample_db)
     = error ''CREDENTIAL_NOT_FOUND'' ''No passkey found for this email'' \<and>
   passkey_challenges
     (fst (login_start sample_env (sample_request\<lparr>email := Some ''bob@example.com''\<rparr>) sample_db))
     = passkey_challenges sample_db \<and>
   snd (login_start sample_env (sample_request\<lparr>email := Some ''carol@example.com''\<rparr>) sample_db)
     = error ''CREDENTIAL_NOT_FOUND'' ''No passkey found for this email''"
proof -
  let ?bob = "sample_request\<lparr>email := Some ''bob@example.com''\<rparr>"
  let ?carol = "sample_request\<lparr>email := Some ''carol@example.com''\<rparr>"
  have tb: "truthy (email ?bob)" and tc: "truthy (email ?carol)"
    by (simp_all add: scenario truthy_def)
  have nb: "case find (\<lambda>u. u_email u = email ?bob) (auth_users sample_db) of
           None \<Rightarrow> True
         | Some user \<Rightarrow> filter (\<lambda>c. cr_user_id c = u_id user) (passkey_credentials sample_db) = []"
    by (simp add: scenario)
  have nc: "case find (\<lambda>u. u_email u = email ?carol) (auth_users sample_db) of
           None \<Rightarrow> True
         | Some user \<Rightarrow> filter (\<lambda>c. cr_user_id c = u_id user) (passkey_credentials sample_db) = []"
    by (simp add: scenario)
  have allowed: "attempt_count (passkey_rate_limits sample_db)
           (clientIP sample_env, ''ip'', ''/login/start'', date_trunc_minute (now sample_env))
         < RATE_LIMITS_ip_maxAttempts"
    by (simp add: scenario attempt_count_def RATE_LIMITS_ip_maxAttempts_def)
  show ?thesis
    using login_start_without_credentials [OF tb nb allowed]
      login_start_without_credentials [OF tc nc allowed]
    by simp
qed

end
